theory Spec2Isabelle
  imports Main "HOL-Library.Word" "HOL-Library.Char_ord" "HOL-Library.List_Lexorder"
    "HOL-Library.AList"
begin

unbundle bit_operations_syntax

section \<open>Go library: strings\<close>

text \<open>\<^verbatim>\<open>strings.HasPrefix(s, prefix)\<close>: \<^verbatim>\<open>len(s) >= len(prefix) && s[:len(prefix)] == prefix\<close>.\<close>

definition HasPrefix :: "string \<Rightarrow> string \<Rightarrow> bool" where
  "HasPrefix s pre = (take (length pre) s = pre)"

subsection \<open>Splitting, joining and cleaning paths\<close>

text \<open>\<^verbatim>\<open>strings.Split(s, sep)\<close> for a one-byte separator.\<close>

fun Split :: "char \<Rightarrow> string \<Rightarrow> string list" where
  "Split c [] = [[]]"
| "Split c (x # xs) =
     (if x = c then [] # Split c xs
      else (case Split c xs of [] \<Rightarrow> [[x]] | y # ys \<Rightarrow> (x # y) # ys))"

text \<open>\<^verbatim>\<open>strings.Join(elems, sep)\<close>.\<close>

fun strings_Join :: "string list \<Rightarrow> string \<Rightarrow> string" where
  "strings_Join [] sep = []"
| "strings_Join [x] sep = x"
| "strings_Join (x # y # ys) sep = x @ sep @ strings_Join (y # ys) sep"

text \<open>
  \<^verbatim>\<open>filepath.Clean\<close> on Unix. The elements between slashes are processed from the left
  onto a stack (held reversed): empty elements and \<^verbatim>\<open>.\<close> are dropped; \<^verbatim>\<open>..\<close> removes the
  element before it, is dropped at the root of a rooted path, and is kept at the start of
  a relative path.
\<close>

fun clean_elems :: "bool \<Rightarrow> string list \<Rightarrow> string list \<Rightarrow> string list" where
  "clean_elems rooted out [] = out"
| "clean_elems rooted out (e # es) =
     (if e = [] \<or> e = ''.'' then clean_elems rooted out es
      else if e = ''..'' then
        (case out of
           [] \<Rightarrow> if rooted then clean_elems rooted [] es else clean_elems rooted [''..''] es
         | t # ts \<Rightarrow> if t = ''..'' then clean_elems rooted (''..'' # out) es
                     else clean_elems rooted ts es)
      else clean_elems rooted (e # out) es)"

definition Clean :: "string \<Rightarrow> string" where
  "Clean path =
     (if path = [] then ''.''
      else
        (let rooted = (hd path = CHR ''/'');
             out = strings_Join (rev (clean_elems rooted [] (Split CHR ''/'' path))) ''/''
         in if rooted then CHR ''/'' # out else if out = [] then ''.'' else out))"

text \<open>
  \<^verbatim>\<open>filepath.Join(elem...)\<close>: the elements from the first non-empty one on are joined
  with slashes and cleaned; the result is empty when every element is.
\<close>

definition filepath_Join :: "string list \<Rightarrow> string" where
  "filepath_Join elem =
     (case dropWhile (\<lambda>e. e = []) elem of
        [] \<Rightarrow> []
      | es \<Rightarrow> Clean (strings_Join es ''/''))"


text \<open>
  \<^verbatim>\<open>strconv.Atoi\<close> on a 64-bit platform: an optional sign and decimal digits. The digits
  are read from the left; a byte that is not a digit is a syntax error, a value that
  leaves the unsigned 64-bit range is a range error at the digit where it does, and so is
  a result outside the signed 64-bit range.
\<close>

datatype numerr = ErrSyntax | ErrRange

fun parse_digits :: "nat \<Rightarrow> string \<Rightarrow> numerr + nat" where
  "parse_digits n [] = Inr n"
| "parse_digits n (ch # s) =
     (if CHR ''0'' \<le> ch \<and> ch \<le> CHR ''9'' then
        (let n1 = n * 10 + (of_char ch - of_char CHR ''0'')
         in if n1 > 2 ^ 64 - 1 then Inl ErrRange else parse_digits n1 s)
      else Inl ErrSyntax)"

definition Atoi :: "string \<Rightarrow> numerr + int" where
  "Atoi s =
     (if s = [] then Inl ErrSyntax
      else
        (let neg = (hd s = CHR ''-'');
             digits = (if hd s = CHR ''-'' \<or> hd s = CHR ''+'' then tl s else s)
         in if digits = [] then Inl ErrSyntax
            else
              (case parse_digits 0 digits of
                 Inl e \<Rightarrow> Inl e
               | Inr un \<Rightarrow>
                   if \<not> neg \<and> un \<ge> 2 ^ 63 then Inl ErrRange
                   else if neg \<and> un > 2 ^ 63 then Inl ErrRange
                   else Inr (if neg then - int un else int un))))"

section \<open>Go library: files\<close>

text \<open>
  The file system the \<^verbatim>\<open>os\<close> calls act on is a tree without symbolic links. A node is
  a regular file or a directory; it carries its permission bits as \<^verbatim>\<open>chmod(2)\<close> sets
  them (the nine permission bits, setuid, setgid and sticky), and whether it belongs to
  another user, in which case the process may not change its mode. The process passes
  every permission check on reading, writing and searching; only \<^verbatim>\<open>chmod\<close> depends on
  the owner. The names of a directory's entries are proper file names: not empty, not
  \<^verbatim>\<open>.\<close> or \<^verbatim>\<open>..\<close>, without a slash. The calls are modelled on the paths the
  program builds from such names; what the kernel and the library do with a trailing
  slash after the name of a file or of a missing entry, or with \<^verbatim>\<open>..\<close> as the last
  element of a path to remove, is not followed in every detail. An error carries the
  operation and the path of the simplest case in which it arises.

  The arguments of a node are its mode bits, whether it belongs to another user, and
  its bytes (a file) or its entries by name (a directory).
\<close>

datatype node =
    File "32 word" bool string
  | Dir "32 word" bool "(string \<times> node) list"

record filesystem =
  root :: node
  cwd :: "string list"
  umask :: "32 word"

datatype errno = ENOENT | EEXIST | ENOTDIR | EISDIR | EPERM | EINVAL | EBUSY | ENOTEMPTY

datatype oserror =
    PathError string string errno
  | LinkError string string string errno
  | NumError string string numerr
  | errorString string
  | Panic string

fun is_dir :: "node \<Rightarrow> bool" where
  "is_dir (Dir m f es) = True"
| "is_dir (File m f d) = False"

fun foreign :: "node \<Rightarrow> bool" where
  "foreign (Dir m f es) = f"
| "foreign (File m f d) = f"

fun perm :: "node \<Rightarrow> 32 word" where
  "perm (Dir m f es) = m"
| "perm (File m f d) = m"

fun set_perm :: "32 word \<Rightarrow> node \<Rightarrow> node" where
  "set_perm m' (Dir m f es) = Dir m' f es"
| "set_perm m' (File m f d) = File m' f d"

fun set_data :: "string \<Rightarrow> node \<Rightarrow> node" where
  "set_data d' (Dir m f es) = Dir m f es"
| "set_data d' (File m f d) = File m f d'"

text \<open>The node at a list of names below a node.\<close>

fun lookup :: "string list \<Rightarrow> node \<Rightarrow> node option" where
  "lookup [] n = Some n"
| "lookup (c # cs) (File m f d) = None"
| "lookup (c # cs) (Dir m f es) =
     (case map_of es c of None \<Rightarrow> None | Some ch \<Rightarrow> lookup cs ch)"

text \<open>A change to the node at a list of names; nothing changes when there is no such node.\<close>

fun modify :: "string list \<Rightarrow> (node \<Rightarrow> node) \<Rightarrow> node \<Rightarrow> node" where
  "modify [] g n = g n"
| "modify (c # cs) g (File m f d) = File m f d"
| "modify (c # cs) g (Dir m f es) =
     (case map_of es c of
        None \<Rightarrow> Dir m f es
      | Some ch \<Rightarrow> Dir m f (AList.update c (modify cs g ch) es))"

text \<open>Binding or removing an entry of a directory.\<close>

fun set_child :: "string \<Rightarrow> node option \<Rightarrow> node \<Rightarrow> node" where
  "set_child c v (File m f d) = File m f d"
| "set_child c None (Dir m f es) = Dir m f (AList.delete c es)"
| "set_child c (Some n) (Dir m f es) = Dir m f (AList.update c n es)"

definition set_entry :: "string list \<Rightarrow> node option \<Rightarrow> node \<Rightarrow> node" where
  "set_entry p v r = (if p = [] then r else modify (butlast p) (set_child (last p) v) r)"

text \<open>
  Path resolution as the kernel does it: from the root for a rooted path and from the
  working directory otherwise, element by element. Before each element the place reached
  must be a directory; an empty element or \<^verbatim>\<open>.\<close> stays, \<^verbatim>\<open>..\<close> goes up (the root is its
  own parent), a name goes down, whether or not the entry exists. The result is the list
  of names from the root.
\<close>

fun namei :: "node \<Rightarrow> string list \<Rightarrow> string list \<Rightarrow> errno + string list" where
  "namei r cur [] = Inr cur"
| "namei r cur (e # es) =
     (case lookup cur r of
        None \<Rightarrow> Inl ENOENT
      | Some (File m f d) \<Rightarrow> Inl ENOTDIR
      | Some (Dir m f ents) \<Rightarrow>
          if e = [] \<or> e = ''.'' then namei r cur es
          else if e = ''..'' then namei r (butlast cur) es
          else namei r (cur @ [e]) es)"

definition resolve :: "filesystem \<Rightarrow> string \<Rightarrow> errno + string list" where
  "resolve fs p =
     (if p = [] then Inl ENOENT
      else namei (root fs) (if hd p = CHR ''/'' then [] else cwd fs) (Split CHR ''/'' p))"

text \<open>
  \<^verbatim>\<open>os.FileMode\<close> is a \<^verbatim>\<open>uint32\<close>: the nine permission bits, and flag bits from the top.
  \<^verbatim>\<open>syscallMode\<close> turns it into the bits passed to \<^verbatim>\<open>chmod(2)\<close>; \<^verbatim>\<open>fileMode\<close> is what
  \<^verbatim>\<open>Stat\<close> reports for a node.
\<close>

definition ModeDir :: "32 word" where "ModeDir = push_bit 31 1"
definition ModeSetuid :: "32 word" where "ModeSetuid = push_bit 23 1"
definition ModeSetgid :: "32 word" where "ModeSetgid = push_bit 22 1"
definition ModeSticky :: "32 word" where "ModeSticky = push_bit 20 1"
definition ModePerm :: "32 word" where "ModePerm = 511"

definition syscallMode :: "32 word \<Rightarrow> 32 word" where
  "syscallMode i =
     (i AND ModePerm)
       OR (if i AND ModeSetuid \<noteq> 0 then 2048 else 0)
       OR (if i AND ModeSetgid \<noteq> 0 then 1024 else 0)
       OR (if i AND ModeSticky \<noteq> 0 then 512 else 0)"

definition fileMode :: "node \<Rightarrow> 32 word" where
  "fileMode n =
     (perm n AND ModePerm)
       OR (if is_dir n then ModeDir else 0)
       OR (if perm n AND 2048 \<noteq> 0 then ModeSetuid else 0)
       OR (if perm n AND 1024 \<noteq> 0 then ModeSetgid else 0)
       OR (if perm n AND 512 \<noteq> 0 then ModeSticky else 0)"

text \<open>\<^verbatim>\<open>FileMode.String()\<close>: the letters of the flag bits set (or a dash), then \<^verbatim>\<open>rwxrwxrwx\<close>.\<close>

definition FileMode_String :: "32 word \<Rightarrow> string" where
  "FileMode_String m =
     (let flags = map snd (filter (\<lambda>(i, c). bit m (31 - i)) (enumerate 0 ''dalTLDpSugct?''))
      in (if flags = [] then ''-'' else flags) @
         map (\<lambda>(i, c). if bit m (8 - i) then c else CHR ''-'') (enumerate 0 ''rwxrwxrwx''))"

record FileInfo =
  fi_Size :: nat
  fi_Mode :: "32 word"
  fi_IsDir :: bool

text \<open>The size \<^verbatim>\<open>Stat\<close> reports: the length of a file; for a directory, one block.\<close>

fun node_size :: "node \<Rightarrow> nat" where
  "node_size (File m f d) = length d"
| "node_size (Dir m f es) = 4096"

definition os_Stat :: "string \<Rightarrow> filesystem \<Rightarrow> oserror + FileInfo" where
  "os_Stat name fs =
     (case resolve fs name of
        Inl e \<Rightarrow> Inl (PathError ''stat'' name e)
      | Inr p \<Rightarrow>
          (case lookup p (root fs) of
             None \<Rightarrow> Inl (PathError ''stat'' name ENOENT)
           | Some n \<Rightarrow> Inr \<lparr>fi_Size = node_size n, fi_Mode = fileMode n, fi_IsDir = is_dir n\<rparr>))"

text \<open>The parent directory of a resolved path must exist and be a directory.\<close>

definition parent_check :: "string list \<Rightarrow> node \<Rightarrow> errno option" where
  "parent_check p r =
     (case lookup (butlast p) r of
        None \<Rightarrow> Some ENOENT
      | Some n \<Rightarrow> if is_dir n then None else Some ENOTDIR)"

text \<open>\<^verbatim>\<open>os.Mkdir(name, perm)\<close>.\<close>

definition os_Mkdir :: "string \<Rightarrow> 32 word \<Rightarrow> filesystem \<Rightarrow> oserror option \<times> filesystem" where
  "os_Mkdir name pm fs =
     (case resolve fs name of
        Inl e \<Rightarrow> (Some (PathError ''mkdir'' name e), fs)
      | Inr p \<Rightarrow>
          if lookup p (root fs) \<noteq> None then (Some (PathError ''mkdir'' name EEXIST), fs)
          else
            (case parent_check p (root fs) of
               Some e \<Rightarrow> (Some (PathError ''mkdir'' name e), fs)
             | None \<Rightarrow>
                 (None, fs\<lparr>root := set_entry p
                                (Some (Dir (syscallMode pm AND NOT (umask fs)) False []))
                                (root fs)\<rparr>)))"

text \<open>
  \<^verbatim>\<open>rename(2)\<close> on resolved paths: the old node must exist, the new parent must be a
  directory, a directory cannot move below itself or onto a file; an existing file at the
  new path is replaced.
\<close>

definition sys_rename :: "string \<Rightarrow> string \<Rightarrow> filesystem \<Rightarrow> oserror option \<times> filesystem" where
  "sys_rename oldname newname fs =
     (case resolve fs oldname of
        Inl e \<Rightarrow> (Some (LinkError ''rename'' oldname newname e), fs)
      | Inr po \<Rightarrow>
          (case lookup po (root fs) of
             None \<Rightarrow> (Some (LinkError ''rename'' oldname newname ENOENT), fs)
           | Some n \<Rightarrow>
               (case resolve fs newname of
                  Inl e \<Rightarrow> (Some (LinkError ''rename'' oldname newname e), fs)
                | Inr pn \<Rightarrow>
                    if po = pn then (None, fs)
                    else if po = [] \<or> pn = [] then
                      (Some (LinkError ''rename'' oldname newname EBUSY), fs)
                    else if is_dir n \<and> take (length po) pn = po then
                      (Some (LinkError ''rename'' oldname newname EINVAL), fs)
                    else
                      (case parent_check pn (root fs) of
                         Some e \<Rightarrow> (Some (LinkError ''rename'' oldname newname e), fs)
                       | None \<Rightarrow>
                           (case lookup pn (root fs) of
                              Some (Dir m f es) \<Rightarrow>
                                if \<not> is_dir n
                                then (Some (LinkError ''rename'' oldname newname EISDIR), fs)
                                else if es \<noteq> []
                                then (Some (LinkError ''rename'' oldname newname ENOTEMPTY), fs)
                                else (None, fs\<lparr>root := set_entry pn (Some n)
                                                         (set_entry po None (root fs))\<rparr>)
                            | Some (File m f d) \<Rightarrow>
                                if is_dir n
                                then (Some (LinkError ''rename'' oldname newname ENOTDIR), fs)
                                else (None, fs\<lparr>root := set_entry pn (Some n)
                                                         (set_entry po None (root fs))\<rparr>)
                            | None \<Rightarrow>
                                (None, fs\<lparr>root := set_entry pn (Some n)
                                                    (set_entry po None (root fs))\<rparr>))))))"

text \<open>
  \<^verbatim>\<open>os.Rename(oldpath, newpath)\<close> on Unix: when \<^verbatim>\<open>newpath\<close> is an existing directory the
  call fails before \<^verbatim>\<open>rename(2)\<close>, with the error of \<^verbatim>\<open>oldpath\<close> if that cannot be
  examined and with \<^verbatim>\<open>EEXIST\<close> otherwise, unless both name the same directory under
  different spellings.
\<close>

definition os_Rename :: "string \<Rightarrow> string \<Rightarrow> filesystem \<Rightarrow> oserror option \<times> filesystem" where
  "os_Rename oldname newname fs =
     (case os_Stat newname fs of
        Inl e \<Rightarrow> sys_rename oldname newname fs
      | Inr fi \<Rightarrow>
          if fi_IsDir fi then
            (case resolve fs oldname of
               Inl e \<Rightarrow> (Some (LinkError ''rename'' oldname newname e), fs)
             | Inr po \<Rightarrow>
                 if lookup po (root fs) = None
                 then (Some (LinkError ''rename'' oldname newname ENOENT), fs)
                 else if newname = oldname \<or> resolve fs newname \<noteq> Inr po
                 then (Some (LinkError ''rename'' oldname newname EEXIST), fs)
                 else sys_rename oldname newname fs)
          else sys_rename oldname newname fs)"

text \<open>
  \<^verbatim>\<open>os.RemoveAll(path)\<close> (Go 1.12 and later, on Linux): nothing to do, and no error, for
  the empty path and for a path that does not exist; a path ending in a dot element is
  refused; a path through something that is not a directory is an error; otherwise the
  node goes with all below it. The root itself cannot be removed, only emptied.
\<close>

definition endsWithDot :: "string \<Rightarrow> bool" where
  "endsWithDot path =
     (path = ''.'' \<or>
      (length path \<ge> 2 \<and> last path = CHR ''.'' \<and> last (butlast path) = CHR ''/''))"

definition os_RemoveAll :: "string \<Rightarrow> filesystem \<Rightarrow> oserror option \<times> filesystem" where
  "os_RemoveAll path fs =
     (if path = [] then (None, fs)
      else if endsWithDot path then (Some (PathError ''RemoveAll'' path EINVAL), fs)
      else
        (case resolve fs path of
           Inl e \<Rightarrow> if e = ENOENT then (None, fs) else (Some (PathError ''unlinkat'' path e), fs)
         | Inr p \<Rightarrow>
             (case lookup p (root fs) of
                None \<Rightarrow> (None, fs)
              | Some n \<Rightarrow>
                  if p = [] then
                    (Some (PathError ''unlinkat'' path EBUSY),
                     fs\<lparr>root := (case root fs of Dir m f es \<Rightarrow> Dir m f [] | r \<Rightarrow> r)\<rparr>)
                  else (None, fs\<lparr>root := set_entry p None (root fs)\<rparr>))))"

text \<open>\<^verbatim>\<open>os.Chmod(name, mode)\<close>.\<close>

definition os_Chmod :: "string \<Rightarrow> 32 word \<Rightarrow> filesystem \<Rightarrow> oserror option \<times> filesystem" where
  "os_Chmod name mode fs =
     (case resolve fs name of
        Inl e \<Rightarrow> (Some (PathError ''chmod'' name e), fs)
      | Inr p \<Rightarrow>
          (case lookup p (root fs) of
             None \<Rightarrow> (Some (PathError ''chmod'' name ENOENT), fs)
           | Some n \<Rightarrow>
               if foreign n then (Some (PathError ''chmod'' name EPERM), fs)
               else (None, fs\<lparr>root := modify p (set_perm (syscallMode mode)) (root fs)\<rparr>)))"

text \<open>
  \<^verbatim>\<open>os.Open(name)\<close> gives a handle on the node (its resolved path); reading all of a
  handle gives the bytes of a file and fails on a directory.
\<close>

definition os_Open :: "string \<Rightarrow> filesystem \<Rightarrow> oserror + string list" where
  "os_Open name fs =
     (case resolve fs name of
        Inl e \<Rightarrow> Inl (PathError ''open'' name e)
      | Inr p \<Rightarrow>
          (case lookup p (root fs) of
             None \<Rightarrow> Inl (PathError ''open'' name ENOENT)
           | Some n \<Rightarrow> Inr p))"

definition read_all :: "string \<Rightarrow> string list \<Rightarrow> filesystem \<Rightarrow> oserror + string" where
  "read_all name p fs =
     (case lookup p (root fs) of
        Some (File m f d) \<Rightarrow> Inr d
      | _ \<Rightarrow> Inl (PathError ''read'' name EISDIR))"

text \<open>
  \<^verbatim>\<open>os.Create(name)\<close>: an existing file is truncated, a missing one is created with mode
  0666 less the umask; the result is a handle. Writing through the handle sets the bytes.
\<close>

definition os_Create :: "string \<Rightarrow> filesystem \<Rightarrow> (oserror + string list) \<times> filesystem" where
  "os_Create name fs =
     (case resolve fs name of
        Inl e \<Rightarrow> (Inl (PathError ''open'' name e), fs)
      | Inr p \<Rightarrow>
          (case lookup p (root fs) of
             Some (Dir m f es) \<Rightarrow> (Inl (PathError ''open'' name EISDIR), fs)
           | Some (File m f d) \<Rightarrow> (Inr p, fs\<lparr>root := modify p (set_data []) (root fs)\<rparr>)
           | None \<Rightarrow>
               (case parent_check p (root fs) of
                  Some e \<Rightarrow> (Inl (PathError ''open'' name e), fs)
                | None \<Rightarrow>
                    (Inr p, fs\<lparr>root := set_entry p
                                   (Some (File (438 AND NOT (umask fs)) False []))
                                   (root fs)\<rparr>))))"

definition write_all :: "string list \<Rightarrow> string \<Rightarrow> filesystem \<Rightarrow> filesystem" where
  "write_all p d fs = fs\<lparr>root := modify p (set_data d) (root fs)\<rparr>"



text \<open>
  \<^verbatim>\<open>filepath.Walk(root, fn)\<close>: the tree below \<^verbatim>\<open>root\<close> in lexical order, the directory
  before its entries. \<^verbatim>\<open>fn\<close> is called with the path of each node (and no error), or with
  the error of \<^verbatim>\<open>Lstat\<close> when \<^verbatim>\<open>root\<close> cannot be examined; the first error \<^verbatim>\<open>fn\<close>
  returns ends the walk and is the result. The walk follows the tree as it is when the
  walk starts: the function passed by \<^verbatim>\<open>Chmod\<close> changes permission bits only, so the
  names and kinds that \<^verbatim>\<open>Walk\<close> reads on its way are those. The \<^verbatim>\<open>FileInfo\<close> argument of
  \<^verbatim>\<open>fn\<close>, which that function does not use, is left out.
\<close>

type_synonym WalkFunc = "string \<Rightarrow> oserror option \<Rightarrow> filesystem \<Rightarrow> oserror option \<times> filesystem"

lemma size_list_insort_key:
  "size_list f (insort_key k x xs) = Suc (f x + size_list f xs)"
  by (induction xs) auto

lemma size_list_sort_key:
  "size_list f (sort_key k xs) = size_list f xs"
  by (induction xs) (simp_all add: size_list_insort_key)

function walk :: "WalkFunc \<Rightarrow> string \<Rightarrow> node \<Rightarrow> filesystem \<Rightarrow> oserror option \<times> filesystem"
  and walk_names ::
    "WalkFunc \<Rightarrow> string \<Rightarrow> (string \<times> node) list \<Rightarrow> filesystem \<Rightarrow> oserror option \<times> filesystem"
  where
  "walk fn path (File m f d) fs = fn path None fs"
| "walk fn path (Dir m f es) fs =
     (let (err1, fs1) = fn path None fs
      in if err1 \<noteq> None then (err1, fs1) else walk_names fn path (sort_key fst es) fs1)"
| "walk_names fn path [] fs = (None, fs)"
| "walk_names fn path ((name, ch) # rest) fs =
     (let filename = filepath_Join [path, name];
          (err, fs1) = walk fn filename ch fs
      in if err \<noteq> None then (err, fs1) else walk_names fn path rest fs1)"
  by pat_completeness auto
termination
  by (relation "measure (\<lambda>x. case x of
          Inl (fn, path, n, fs) \<Rightarrow> size n
        | Inr (fn, path, es, fs) \<Rightarrow> size_list (size_prod (\<lambda>_. 0) size) es)")
     (auto simp: size_list_sort_key)

definition lstat_node :: "string \<Rightarrow> filesystem \<Rightarrow> oserror + node" where
  "lstat_node name fs =
     (case resolve fs name of
        Inl e \<Rightarrow> Inl (PathError ''lstat'' name e)
      | Inr p \<Rightarrow>
          (case lookup p (root fs) of
             None \<Rightarrow> Inl (PathError ''lstat'' name ENOENT)
           | Some n \<Rightarrow> Inr n))"

definition Walk :: "string \<Rightarrow> WalkFunc \<Rightarrow> filesystem \<Rightarrow> oserror option \<times> filesystem" where
  "Walk root_path fn fs =
     (case lstat_node root_path fs of
        Inl e \<Rightarrow> fn root_path (Some e) fs
      | Inr n \<Rightarrow> walk fn root_path n fs)"

text \<open>
  Reading text as \<^verbatim>\<open>GetContent\<close> does: the bytes are decoded from ISO 8859-1 (a byte
  from 128 on becomes the two bytes of its UTF-8 encoding), then cut into lines by a
  \<^verbatim>\<open>bufio.Scanner\<close>: a line ends at a newline, one carriage return before it is dropped,
  a last line without a newline counts when it is not empty, and scanning stops (its
  error is not looked at) at a line that does not fit the scanner's buffer of 65536 bytes.
\<close>

definition decode_byte :: "char \<Rightarrow> string" where
  "decode_byte b =
     (let n = (of_char b :: nat)
      in if n < 128 then [b] else [char_of (192 + n div 64), char_of (128 + n mod 64)])"

definition decode_ISO8859_1 :: "string \<Rightarrow> string" where
  "decode_ISO8859_1 bytes = concat (map decode_byte bytes)"

definition dropCR :: "string \<Rightarrow> string" where
  "dropCR l = (if l \<noteq> [] \<and> last l = CHR 0x0D then butlast l else l)"

definition MaxScanTokenSize :: nat where
  "MaxScanTokenSize = 64 * 1024"

definition scan_lines :: "string \<Rightarrow> string list" where
  "scan_lines input =
     (let segs = Split CHR 0x0A input;
          ended = butlast segs;
          final = last segs;
          fit = takeWhile (\<lambda>l. length l < MaxScanTokenSize) ended
      in map dropCR fit @
         (if length fit = length ended \<and> final \<noteq> [] \<and> length final < MaxScanTokenSize
          then [dropCR final] else []))"

section \<open>Package fe: the local file explorer\<close>

text \<open>
  A run-time panic is not an error value; where the code can panic, the model returns
  \<open>Panic\<close> in the place of the error.
\<close>

record LocalFileExplorer =
  RelativePath :: string

definition NewLocalFileExplorer :: "string \<Rightarrow> LocalFileExplorer" where
  "NewLocalFileExplorer path = \<lparr>RelativePath = path\<rparr>"

text \<open>
  \<^verbatim>\<open>for _, target := range path { err = body(target) }\<close>, from the value \<^verbatim>\<open>err\<close> has
  before the loop: every element is processed, and each assignment replaces the error.
\<close>

fun for_range :: "('a \<Rightarrow> 's \<Rightarrow> 'e \<times> 's) \<Rightarrow> 'a list \<Rightarrow> 'e \<Rightarrow> 's \<Rightarrow> 'e \<times> 's" where
  "for_range body [] err s = (err, s)"
| "for_range body (target # rest) err s =
     (let (err', s') = body target s in for_range body rest err' s')"

text \<open>
  \<^verbatim>\<open>CopyFile(source, dest)\<close>. After a copy without error the code stats the source into
  variables of the inner block and calls \<^verbatim>\<open>os.Chmod(dest, si.Mode())\<close> only when that
  \<^verbatim>\<open>Stat\<close> failed, where \<^verbatim>\<open>si\<close> is nil; the function returns the error of the copy.
\<close>

definition CopyFile :: "string \<Rightarrow> string \<Rightarrow> filesystem \<Rightarrow> oserror option \<times> filesystem" where
  "CopyFile source dest fs =
     (case os_Open source fs of
        Inl err \<Rightarrow> (Some err, fs)
      | Inr sf \<Rightarrow>
          (case os_Create dest fs of
             (Inl err, fs1) \<Rightarrow> (Some err, fs1)
           | (Inr df, fs1) \<Rightarrow>
               (case read_all source sf fs1 of
                  Inl err \<Rightarrow> (Some err, fs1)
                | Inr d \<Rightarrow>
                    (let fs2 = write_all df d fs1
                     in case os_Stat source fs2 of
                          Inl err' \<Rightarrow> (Some (Panic ''nil pointer dereference''), fs2)
                        | Inr si \<Rightarrow> (None, fs2)))))"

definition Init :: "LocalFileExplorer \<Rightarrow> oserror option" where
  "Init fe = None"


definition Rename ::
  "LocalFileExplorer \<Rightarrow> string \<Rightarrow> string \<Rightarrow> filesystem \<Rightarrow> oserror option \<times> filesystem" where
  "Rename fe path newPath fs =
     os_Rename (filepath_Join [RelativePath fe, path]) (filepath_Join [RelativePath fe, newPath]) fs"

definition Move ::
  "LocalFileExplorer \<Rightarrow> string list \<Rightarrow> string \<Rightarrow> filesystem \<Rightarrow> oserror option \<times> filesystem" where
  "Move fe path newPath fs = for_range (\<lambda>target. Rename fe target newPath) path None fs"

definition Copy ::
  "LocalFileExplorer \<Rightarrow> string list \<Rightarrow> string \<Rightarrow> string \<Rightarrow> filesystem
     \<Rightarrow> oserror option \<times> filesystem" where
  "Copy fe path newPath singleFilename fs =
     for_range
       (\<lambda>target. CopyFile (filepath_Join [RelativePath fe, target])
                           (filepath_Join [RelativePath fe, newPath, singleFilename]))
       path None fs"

definition Delete ::
  "LocalFileExplorer \<Rightarrow> string list \<Rightarrow> filesystem \<Rightarrow> oserror option \<times> filesystem" where
  "Delete fe path fs = for_range (\<lambda>target. os_RemoveAll target) path None fs"

text \<open>
  \<^verbatim>\<open>Chmod(path, code, recursive)\<close>. \<^verbatim>\<open>os.FileMode(codeInt)\<close> converts the \<^verbatim>\<open>int\<close> to
  \<^verbatim>\<open>uint32\<close>. In the recursive branch the result of \<^verbatim>\<open>filepath.Walk\<close> is not assigned, so
  \<^verbatim>\<open>err\<close> is still the \<^verbatim>\<open>nil\<close> of \<^verbatim>\<open>Atoi\<close> at the \<^verbatim>\<open>return\<close>.
\<close>

definition chmod_walkFn :: "int \<Rightarrow> WalkFunc" where
  "chmod_walkFn codeInt name err fs =
     (case err of
        None \<Rightarrow> os_Chmod name (word_of_int codeInt) fs
      | Some e \<Rightarrow> (Some e, fs))"

definition Chmod ::
  "LocalFileExplorer \<Rightarrow> string list \<Rightarrow> string \<Rightarrow> bool \<Rightarrow> filesystem
     \<Rightarrow> oserror option \<times> filesystem" where
  "Chmod fe path code recursive fs =
     (case Atoi code of
        Inl e \<Rightarrow> (Some (NumError ''Atoi'' code e), fs)
      | Inr codeInt \<Rightarrow>
          if recursive then
            (None,
             fold (\<lambda>target fs'.
                     snd (Walk (filepath_Join [RelativePath fe, target])
                               (chmod_walkFn codeInt) fs'))
                  path fs)
          else
            for_range
              (\<lambda>target. os_Chmod (filepath_Join [RelativePath fe, target]) (word_of_int codeInt))
              path None fs)"

definition Close :: "LocalFileExplorer \<Rightarrow> oserror option" where
  "Close fe = None"

definition GetContent :: "LocalFileExplorer \<Rightarrow> string \<Rightarrow> filesystem \<Rightarrow> oserror + string" where
  "GetContent fe item fs =
     (let realPath = filepath_Join [RelativePath fe, item]
      in case os_Stat realPath fs of
           Inl err \<Rightarrow> Inl err
         | Inr fi \<Rightarrow>
             if fi_Size fi > 1024 * 1024
             then Inl (errorString ''file too big, not support getContent'')
             else
               (case os_Open realPath fs of
                  Inl err \<Rightarrow> Inl err
                | Inr df \<Rightarrow>
                    (let bytes = (case read_all realPath df fs of Inl e \<Rightarrow> [] | Inr d \<Rightarrow> d);
                         texts = scan_lines (decode_ISO8859_1 bytes)
                     in Inr (strings_Join texts [CHR 0x0A]))))"


section \<open>Package main: sessions, the connection cache and the Contexter middleware\<close>

text \<open>
  A Go \<^verbatim>\<open>error\<close> value of \<^verbatim>\<open>main.go\<close> is only ever compared with \<^verbatim>\<open>nil\<close> and asked
  for its \<^verbatim>\<open>Error()\<close> text, so it is represented by that text; \<^verbatim>\<open>nil\<close> is \<open>None\<close>.
\<close>

type_synonym error = string

text \<open>
  \<^verbatim>\<open>type SessionInfo struct { User, Password string; FileExplorer fe.FileExplorer; Uid string }\<close>.
  The interface value \<^verbatim>\<open>FileExplorer\<close> is \<^verbatim>\<open>nil\<close> (\<open>None\<close>) or a pointer to an explorer
  object, represented by its address in the store.
\<close>

record SessionInfo =
  User :: string
  Password :: string
  FileExplorer :: "nat option"
  Uid :: string

text \<open>The state of the connection an explorer object owns.\<close>

datatype conn = NotReady | Connected | Failed | Released

record SSHFileExplorer =
  ssh_User :: string
  ssh_Password :: string
  ssh_conn :: conn

text \<open>Calls whose order matters to the session lifecycle, in program order.\<close>

datatype effect = CallClose nat | CachePut string | CacheDelete string

text \<open>
  The process-wide state: the macaron cache (a map from key to the cached value), the
  store of explorer objects with the next free address, and the trace of effects.
\<close>

record world =
  cache :: "string \<Rightarrow> SessionInfo option"
  heap :: "nat \<Rightarrow> SSHFileExplorer option"
  heap_next :: nat
  trace :: "effect list"

text \<open>The backend host's answer to a connection attempt with a credential pair.\<close>

type_synonym backend = "string \<Rightarrow> string \<Rightarrow> error option"

text \<open>
  Modelled from the spec: \<^verbatim>\<open>fe.NewSSHFileExplorer(host, username, password)\<close>, whose file is
  not among the sources. Like \<^verbatim>\<open>NewLocalFileExplorer\<close> it returns a pointer to a newly
  allocated explorer object holding the credentials; the connection is not yet open.
\<close>

definition NewSSHFileExplorer :: "string \<Rightarrow> string \<Rightarrow> world \<Rightarrow> nat \<times> world" where
  "NewSSHFileExplorer username password w =
     (heap_next w,
      w\<lparr>heap := (heap w)(heap_next w \<mapsto>
             \<lparr>ssh_User = username, ssh_Password = password, ssh_conn = NotReady\<rparr>),
        heap_next := Suc (heap_next w)\<rparr>)"

text \<open>
  Modelled from the spec: \<^verbatim>\<open>Init\<close> of the remote explorer ("opens and authenticates a
  transport session"). The backend decides; the object records the outcome.
\<close>

definition SSH_Init :: "backend \<Rightarrow> nat \<Rightarrow> world \<Rightarrow> error option \<times> world" where
  "SSH_Init be a w =
     (case heap w a of
        None \<Rightarrow> (Some ''invalid explorer'', w)
      | Some x \<Rightarrow>
          (case be (ssh_User x) (ssh_Password x) of
             None \<Rightarrow> (None, w\<lparr>heap := (heap w)(a \<mapsto> x\<lparr>ssh_conn := Connected\<rparr>)\<rparr>)
           | Some e \<Rightarrow> (Some e, w\<lparr>heap := (heap w)(a \<mapsto> x\<lparr>ssh_conn := Failed\<rparr>)\<rparr>)))"

text \<open>
  Modelled from the spec: \<^verbatim>\<open>Close\<close> of the remote explorer ("releases the underlying
  connection"). The call is recorded in the trace.
\<close>

definition SSH_Close :: "nat \<Rightarrow> world \<Rightarrow> world" where
  "SSH_Close a w =
     w\<lparr>heap := (case heap w a of
                  None \<Rightarrow> heap w
                | Some x \<Rightarrow> (heap w)(a \<mapsto> x\<lparr>ssh_conn := Released\<rparr>)),
       trace := trace w @ [CallClose a]\<rparr>"

text \<open>
  \<^verbatim>\<open>func BackendConnect(username, password string) (fe.FileExplorer, error)\<close>: a new explorer
  is built and initialised; it is returned only when \<^verbatim>\<open>Init\<close> gave no error.
\<close>

definition BackendConnect ::
  "backend \<Rightarrow> string \<Rightarrow> string \<Rightarrow> world \<Rightarrow> (nat option \<times> error option) \<times> world" where
  "BackendConnect be username password w =
     (let (fe, w1) = NewSSHFileExplorer username password w;
          (err, w2) = SSH_Init be fe w1
      in if err = None then ((Some fe, None), w2) else ((None, err), w2))"

text \<open>The macaron cache, memory adapter: \<^verbatim>\<open>Put\<close>, \<^verbatim>\<open>Delete\<close> (\<^verbatim>\<open>Get\<close> is a lookup).\<close>

definition cache_Put :: "string \<Rightarrow> SessionInfo \<Rightarrow> world \<Rightarrow> world" where
  "cache_Put k v w = w\<lparr>cache := (cache w)(k \<mapsto> v), trace := trace w @ [CachePut k]\<rparr>"

definition cache_Delete :: "string \<Rightarrow> world \<Rightarrow> world" where
  "cache_Delete k w = w\<lparr>cache := (cache w)(k := None), trace := trace w @ [CacheDelete k]\<rparr>"

text \<open>The response bodies of package \<^verbatim>\<open>models\<close>, as \<^verbatim>\<open>main.go\<close> builds them.\<close>

record ListDirEntry =
  Name :: string
  Rights :: string
  Size :: string
  Date :: string
  Type :: string

datatype body = GenericResp bool string | ListDirResp "ListDirEntry list"

datatype response = JSON nat body | Redirect string

datatype data = Str string | FlashRef

text \<open>
  What a request's \<^verbatim>\<open>macaron.Context\<close> accumulates: \<^verbatim>\<open>c.Data\<close>, the value mapped for
  type \<^verbatim>\<open>SessionInfo\<close> (\<^verbatim>\<open>c.Map\<close> stores a copy of the struct), the flash message, the
  responses written, the cookies set, and whether the handler panicked.
\<close>

record Context =
  Data :: "string \<Rightarrow> data option"
  mapped :: "SessionInfo option"
  flash :: "string option"
  written :: "response list"
  cookies :: "(string \<times> string) list"
  panicked :: bool

record Request =
  URL_Path :: string
  Method :: string
  Query :: "(string \<times> string) list"

definition query :: "Request \<Rightarrow> string \<Rightarrow> string" where
  "query req name = (case map_of (Query req) name of None \<Rightarrow> [] | Some v \<Rightarrow> v)"

definition DEFAULT_API_ERROR_RESPONSE :: body where
  "DEFAULT_API_ERROR_RESPONSE = GenericResp False ''Not Supported''"

definition c_JSON :: "nat \<Rightarrow> body \<Rightarrow> Context \<Rightarrow> Context" where
  "c_JSON code b c = c\<lparr>written := written c @ [JSON code b]\<rparr>"

definition c_Redirect :: "string \<Rightarrow> Context \<Rightarrow> Context" where
  "c_Redirect url c = c\<lparr>written := written c @ [Redirect url]\<rparr>"

text \<open>\<^verbatim>\<open>ApiErrorResponse(c, code, obj)\<close>; every caller passes an error, whose text is the message.\<close>

definition ApiErrorResponse :: "nat \<Rightarrow> error \<Rightarrow> Context \<Rightarrow> Context" where
  "ApiErrorResponse code err c = c_JSON code (GenericResp False err) c"

definition ApiSuccessResponse :: "string \<Rightarrow> Context \<Rightarrow> Context" where
  "ApiSuccessResponse message c = c_JSON 200 (GenericResp True message) c"

definition AuthError :: "error \<Rightarrow> Context \<Rightarrow> Context" where
  "AuthError err c =
     c_Redirect ''/login''
       (c\<lparr>flash := Some err,
          Data := (Data c)(''Flash'' \<mapsto> FlashRef, ''ErrorMsg'' \<mapsto> Str err)\<rparr>)"

definition IsApiPath :: "string \<Rightarrow> bool" where
  "IsApiPath url = (HasPrefix url ''/api/'' \<or> HasPrefix url ''/bridges/php/handler.php'')"

definition Context0 :: Context where
  "Context0 = \<lparr>Data = Map.empty, mapped = None, flash = None, written = [],
               cookies = [], panicked = False\<rparr>"

definition SessionInfo0 :: SessionInfo where
  "SessionInfo0 = \<lparr>User = [], Password = [], FileExplorer = None, Uid = []\<rparr>"

text \<open>
  Lines 166--198 of \<^verbatim>\<open>Contexter\<close>: the caller's session is resolved through the cache.
  The result is the local variables \<^verbatim>\<open>isSigned\<close> and \<^verbatim>\<open>sessionInfo\<close>, the context
  and the world. \<^verbatim>\<open>c.Map(sessionInfo)\<close> on line 183 stores the struct as it is at that
  point; the assignment to \<^verbatim>\<open>sessionInfo.FileExplorer\<close> on line 186 changes the local
  variable only.
\<close>

definition resolve_session ::
  "backend \<Rightarrow> Request \<Rightarrow> string option \<Rightarrow> world \<Rightarrow> bool \<times> SessionInfo \<times> Context \<times> world" where
  "resolve_session be req uid w =
     (case uid of
        None \<Rightarrow> (False, SessionInfo0, Context0, w)
      | Some u \<Rightarrow>
          (case cache w u of
             None \<Rightarrow> (False, SessionInfo0, Context0, w)
           | Some sessionInfo \<Rightarrow>
               if User sessionInfo = [] \<or> Password sessionInfo = []
               then (False, sessionInfo, Context0, w)
               else
                 (let c = Context0\<lparr>Data := (Data Context0)(''User'' \<mapsto> Str (User sessionInfo)),
                                   mapped := Some sessionInfo\<rparr>
                  in if FileExplorer sessionInfo = None
                     then
                       (let ((fe, err), w1) =
                              BackendConnect be (User sessionInfo) (Password sessionInfo) w;
                            sessionInfo1 = sessionInfo\<lparr>FileExplorer := fe\<rparr>
                        in case err of
                             None \<Rightarrow> (True, sessionInfo1, c, w1)
                           | Some e \<Rightarrow>
                               (False, sessionInfo1,
                                if IsApiPath (URL_Path req) then ApiErrorResponse 500 e c
                                else AuthError e c,
                                w1))
                     else (True, sessionInfo, c, w))))"

text \<open>
  The middleware \<^verbatim>\<open>Contexter\<close>. Its arguments are the backend, the request, the value of
  the caller's session store under \<^verbatim>\<open>"uid"\<close> and the world; it returns the context, the
  new value under \<^verbatim>\<open>"uid"\<close> and the new world.
\<close>

definition Contexter ::
  "backend \<Rightarrow> Request \<Rightarrow> string option \<Rightarrow> world \<Rightarrow> Context \<times> string option \<times> world" where
  "Contexter be req session w0 =
     (let uid = session;
          (isSigned, sessionInfo, c, w) = resolve_session be req uid w0
      in
      if isSigned = False then
        (if HasPrefix (URL_Path req) ''/login'' then
           (if Method req = ''POST'' then
              (let username = query req ''username'';
                   password = query req ''password'';
                   ((fe, err), w2) = BackendConnect be username password w
               in case err of
                    Some e \<Rightarrow> (AuthError e c, session, w2)
                  | None \<Rightarrow>
                      (let uid' = username;
                           sessionInfo' = \<lparr>User = username, Password = password,
                                           FileExplorer = fe, Uid = uid'\<rparr>;
                           w3 = cache_Put uid' sessionInfo' w2;
                           c1 = c\<lparr>Data := (Data c)(''User'' \<mapsto> Str (User sessionInfo')),
                                  mapped := Some sessionInfo'\<rparr>
                       in (c_Redirect ''/'' c1, Some uid', w3)))
            else (c, session, w))
         else (c_Redirect ''/login'' c, session, w))
      else
        (if HasPrefix (URL_Path req) ''/logout'' then
           (case (FileExplorer sessionInfo, uid) of
              (Some a, Some u) \<Rightarrow>
                (let w1 = SSH_Close a w;
                     w2 = cache_Delete u w1;
                     c1 = c\<lparr>cookies := cookies c @ [(''MacaronSession'', [])]\<rparr>
                 in (c_Redirect ''/login'' c1, None, w2))
            | _ \<Rightarrow> (c\<lparr>panicked := True\<rparr>, session, w))
         else (c, session, w)))"

subsection \<open>The action dispatcher\<close>

text \<open>\<^verbatim>\<open>models.GenericReq\<close>: the fields of the request body that \<^verbatim>\<open>apiHandler\<close> reads.\<close>

record GenericReq =
  Action :: string
  Path :: string
  Item :: string
  NewItemPath :: string
  Items :: "string list"
  NewPath :: string
  SingleFilename :: string
  PermsCode :: string
  Recursive :: bool

text \<open>
  The interface \<^verbatim>\<open>fe.FileExplorer\<close>, as far as \<^verbatim>\<open>apiHandler\<close> calls it: a table of
  methods over the state \<open>'b\<close> of the backend the explorer acts on. A method returns its
  error (\<open>None\<close> for \<^verbatim>\<open>nil\<close>) and the new backend state.
\<close>

record 'b explorer =
  fe_ListDir :: "string \<Rightarrow> 'b \<Rightarrow> (error + ListDirEntry list) \<times> 'b"
  fe_Rename :: "string \<Rightarrow> string \<Rightarrow> 'b \<Rightarrow> error option \<times> 'b"
  fe_Move :: "string list \<Rightarrow> string \<Rightarrow> 'b \<Rightarrow> error option \<times> 'b"
  fe_Copy :: "string list \<Rightarrow> string \<Rightarrow> string \<Rightarrow> 'b \<Rightarrow> error option \<times> 'b"
  fe_Delete :: "string list \<Rightarrow> 'b \<Rightarrow> error option \<times> 'b"
  fe_Mkdir :: "string \<Rightarrow> 'b \<Rightarrow> error option \<times> 'b"
  fe_Chmod :: "string list \<Rightarrow> string \<Rightarrow> bool \<Rightarrow> 'b \<Rightarrow> error option \<times> 'b"

text \<open>
  The branch every action with an error result shares:
  \<^verbatim>\<open>if err == nil { ApiSuccessResponse(c, "") } else { ApiErrorResponse(c, 400, err) }\<close>.
\<close>

definition respond :: "error option \<Rightarrow> Context \<Rightarrow> Context" where
  "respond err c = (case err of None \<Rightarrow> ApiSuccessResponse [] c
                    | Some e \<Rightarrow> ApiErrorResponse 400 e c)"

text \<open>
  \<^verbatim>\<open>func apiHandler(c *macaron.Context, req models.GenericReq, s SessionInfo)\<close>. The
  argument \<open>s\<close> is \<^verbatim>\<open>s.FileExplorer\<close>: \<open>None\<close> for \<^verbatim>\<open>nil\<close>, on which a method call
  panics. The chain of \<^verbatim>\<open>if\<close>/\<^verbatim>\<open>else if\<close> has no final \<^verbatim>\<open>else\<close>.
\<close>

definition apiHandler ::
  "'b explorer option \<Rightarrow> GenericReq \<Rightarrow> Context \<Rightarrow> 'b \<Rightarrow> Context \<times> 'b" where
  "apiHandler s req c b =
     (if Action req = ''list'' then
        (case s of None \<Rightarrow> (c\<lparr>panicked := True\<rparr>, b)
         | Some fe \<Rightarrow>
             (case fe_ListDir fe (Path req) b of
                (Inr ls, b') \<Rightarrow> (c_JSON 200 (ListDirResp ls) c, b')
              | (Inl err, b') \<Rightarrow> (ApiErrorResponse 400 err c, b')))
      else if Action req = ''rename'' then
        (case s of None \<Rightarrow> (c\<lparr>panicked := True\<rparr>, b)
         | Some fe \<Rightarrow>
             (let (err, b') = fe_Rename fe (Item req) (NewItemPath req) b
              in (respond err c, b')))
      else if Action req = ''move'' then
        (case s of None \<Rightarrow> (c\<lparr>panicked := True\<rparr>, b)
         | Some fe \<Rightarrow>
             (let (err, b') = fe_Move fe (Items req) (NewPath req) b
              in (respond err c, b')))
      else if Action req = ''copy'' then
        (case s of None \<Rightarrow> (c\<lparr>panicked := True\<rparr>, b)
         | Some fe \<Rightarrow>
             (let (err, b') = fe_Copy fe (Items req) (NewPath req) (SingleFilename req) b
              in (respond err c, b')))
      else if Action req = ''remove'' then
        (case s of None \<Rightarrow> (c\<lparr>panicked := True\<rparr>, b)
         | Some fe \<Rightarrow>
             (let (err, b') = fe_Delete fe (Items req) b
              in (respond err c, b')))
      else if Action req = ''savefile'' then (c_JSON 200 DEFAULT_API_ERROR_RESPONSE c, b)
      else if Action req = ''edit'' then (c_JSON 200 DEFAULT_API_ERROR_RESPONSE c, b)
      else if Action req = ''createFolder'' then
        (case s of None \<Rightarrow> (c\<lparr>panicked := True\<rparr>, b)
         | Some fe \<Rightarrow>
             (let (err, b') = fe_Mkdir fe (NewPath req) b
              in (respond err c, b')))
      else if Action req = ''changePermissions'' then
        (case s of None \<Rightarrow> (c\<lparr>panicked := True\<rparr>, b)
         | Some fe \<Rightarrow>
             (let (err, b') = fe_Chmod fe (Items req) (PermsCode req) (Recursive req) b
              in (respond err c, b')))
      else if Action req = ''compress'' then (c_JSON 200 DEFAULT_API_ERROR_RESPONSE c, b)
      else if Action req = ''extract'' then (c_JSON 200 DEFAULT_API_ERROR_RESPONSE c, b)
      else (c, b))"

text \<open>The actions with a capability call, and the ones answered by the fixed envelope.\<close>

definition implemented :: "string list" where
  "implemented = [''list'', ''rename'', ''move'', ''copy'', ''remove'', ''createFolder'',
                  ''changePermissions'']"

definition stubbed :: "string list" where
  "stubbed = [''savefile'', ''edit'', ''compress'', ''extract'']"

text \<open>
  The server: the world and one session store per client (the value under \<^verbatim>\<open>"uid"\<close>).
  An event is a request of a client, served with the backend's current answers, or the
  expiry of a cache entry, after which the cache no longer holds the key.
\<close>

record server =
  W :: world
  sessions :: "nat \<Rightarrow> string option"

datatype event = Req nat backend Request | Expire string

definition world0 :: world where
  "world0 = \<lparr>cache = Map.empty, heap = Map.empty, heap_next = 0, trace = []\<rparr>"

definition server0 :: server where
  "server0 = \<lparr>W = world0, sessions = (\<lambda>_. None)\<rparr>"

fun step :: "server \<Rightarrow> event \<Rightarrow> server" where
  "step s (Req client be req) =
     (let (c, session', w') = Contexter be req (sessions s client) (W s)
      in s\<lparr>W := w', sessions := (sessions s)(client := session')\<rparr>)"
| "step s (Expire k) = s\<lparr>W := (W s)\<lparr>cache := (cache (W s))(k := None)\<rparr>\<rparr>"

definition run :: "event list \<Rightarrow> server \<Rightarrow> server" where
  "run evs s = foldl step s evs"




text \<open>
  I3 on the server: every explorer whose connection is open is still held by some
  session record of the cache (a record is not discarded while its explorer is open).
\<close>

definition no_connection_leak :: "world \<Rightarrow> bool" where
  "no_connection_leak w \<longleftrightarrow>
     (\<forall>a x. heap w a = Some x \<and> ssh_conn x = Connected \<longrightarrow>
        (\<exists>k s. cache w k = Some s \<and> FileExplorer s = Some a))"

section \<open>Predicates used in the proofs\<close>



text \<open>A tree covers another when it has every node of the other, of the same kind.\<close>

definition covers :: "node \<Rightarrow> node \<Rightarrow> bool" where
  "covers r r' \<longleftrightarrow>
     (\<forall>q n. lookup q r = Some n \<longrightarrow> (\<exists>n'. lookup q r' = Some n' \<and> is_dir n' = is_dir n))"

text \<open>The explorer without a prefix, and a path joined under the prefix of an explorer.\<close>

definition unrooted :: LocalFileExplorer where
  "unrooted = NewLocalFileExplorer []"

definition under :: "LocalFileExplorer \<Rightarrow> string \<Rightarrow> string" where
  "under fe p = filepath_Join [RelativePath fe, p]"

section \<open>Concrete inputs used in the examples\<close>

subsection \<open>Concrete requests and worlds used in the examples\<close>

definition accept_all :: backend where
  "accept_all u p = None"

definition login_req :: "string \<Rightarrow> string \<Rightarrow> Request" where
  "login_req u p = \<lparr>URL_Path = ''/login'', Method = ''POST'',
      Query = [(''username'', u), (''password'', p)]\<rparr>"

definition logout_req :: Request where
  "logout_req = \<lparr>URL_Path = ''/logout'', Method = ''GET'', Query = []\<rparr>"

definition api_req :: Request where
  "api_req = \<lparr>URL_Path = ''/api/_'', Method = ''POST'', Query = []\<rparr>"

definition alice_as_cached :: "nat option \<Rightarrow> SessionInfo" where
  "alice_as_cached fe =
     \<lparr>User = ''alice'', Password = ''pw'', FileExplorer = fe, Uid = ''alice''\<rparr>"

definition two_logins :: "event list" where
  "two_logins = [Req 0 accept_all (login_req ''alice'' ''pw''),
                 Req 1 accept_all (login_req ''bob'' ''pw'')]"

definition relogin :: "event list" where
  "relogin = [Req 0 accept_all (login_req ''alice'' ''pw''),
              Req 1 accept_all (login_req ''alice'' ''pw'')]"

definition alice_world :: world where
  "alice_world =
     \<lparr>cache = [''alice'' \<mapsto> alice_as_cached (Some 0)],
      heap = [0 \<mapsto> \<lparr>ssh_User = ''alice'', ssh_Password = ''pw'', ssh_conn = Connected\<rparr>],
      heap_next = 1, trace = [CachePut ''alice'']\<rparr>"


text \<open>An explorer that records every call made on it and reports success.\<close>

datatype call =
    ListDirCall string
  | RenameCall string string
  | MoveCall "string list" string
  | CopyCall "string list" string string
  | DeleteCall "string list"
  | MkdirCall string
  | ChmodCall "string list" string bool

definition recorder :: "call list explorer" where
  "recorder =
     \<lparr>fe_ListDir = (\<lambda>p l. (Inr [], l @ [ListDirCall p])),
      fe_Rename = (\<lambda>p q l. (None, l @ [RenameCall p q])),
      fe_Move = (\<lambda>ps q l. (None, l @ [MoveCall ps q])),
      fe_Copy = (\<lambda>ps q n l. (None, l @ [CopyCall ps q n])),
      fe_Delete = (\<lambda>ps l. (None, l @ [DeleteCall ps])),
      fe_Mkdir = (\<lambda>p l. (None, l @ [MkdirCall p])),
      fe_Chmod = (\<lambda>ps code r l. (None, l @ [ChmodCall ps code r]))\<rparr>"

definition request0 :: GenericReq where
  "request0 = \<lparr>Action = [], Path = ''/'', Item = [], NewItemPath = [], Items = [],
               NewPath = [], SingleFilename = [], PermsCode = [], Recursive = False\<rparr>"

text \<open>
  A file system: \<^verbatim>\<open>/present\<close>, and below \<^verbatim>\<open>/home/u\<close> the file \<^verbatim>\<open>present\<close> and the
  directory \<^verbatim>\<open>d\<close> with the files \<^verbatim>\<open>a\<close> and \<^verbatim>\<open>b\<close>, the latter of another user. Modes
  are 0755 for directories and 0644 for files; the umask is 022; the working directory
  is the root. The explorer serves \<^verbatim>\<open>/home/u\<close>.
\<close>

definition home_u :: "(string \<times> node) list" where
  "home_u = [(''present'', File 420 False ''hello''),
             (''d'', Dir 493 False [(''b'', File 420 True ''x''), (''a'', File 420 False ''y'')])]"

definition tree :: "(string \<times> node) list \<Rightarrow> filesystem" where
  "tree u = \<lparr>root = Dir 493 False
                      [(''home'', Dir 493 False [(''u'', Dir 493 False u)]),
                       (''present'', File 420 False ''root file'')],
              cwd = [], umask = 18\<rparr>"

definition fs0 :: filesystem where
  "fs0 = tree home_u"

definition fe0 :: LocalFileExplorer where
  "fe0 = NewLocalFileExplorer ''/home/u''"

text \<open>Files of exactly 1 MiB and of 1 MiB and one byte below \<^verbatim>\<open>/home/u\<close>.\<close>

definition filled :: "nat \<Rightarrow> string" where
  "filled n = replicate n (CHR ''a'')"

definition sized_files :: filesystem where
  "sized_files = tree [(''exact'', File 420 False (filled (1024 * 1024))),
                       (''over'', File 420 False (filled (1024 * 1024 + 1)))]"

section \<open>Properties of the session binder\<close>

lemmas eval_defs = run_def server0_def world0_def Contexter_def resolve_session_def
  BackendConnect_def NewSSHFileExplorer_def SSH_Init_def SSH_Close_def accept_all_def
  login_req_def query_def HasPrefix_def cache_Put_def cache_Delete_def c_Redirect_def
  c_JSON_def Let_def SessionInfo0_def Context0_def logout_req_def api_req_def
  alice_as_cached_def relogin_def two_logins_def IsApiPath_def AuthError_def
  ApiErrorResponse_def











lemma relogin_world:
  "W (run relogin server0) =
     \<lparr>cache = [''alice'' \<mapsto> alice_as_cached (Some 1)],
      heap = [0 \<mapsto> \<lparr>ssh_User = ''alice'', ssh_Password = ''pw'', ssh_conn = Connected\<rparr>,
              1 \<mapsto> \<lparr>ssh_User = ''alice'', ssh_Password = ''pw'', ssh_conn = Connected\<rparr>],
      heap_next = 2,
      trace = [CachePut ''alice'', CachePut ''alice'']\<rparr>"
  by (simp add: eval_defs)

text \<open>
  C3, as stated, fails: after a second login with the username of a session that is
  still cached, the new record has replaced the old one, and the explorer of the old
  record (object 0) is still connected: no \<^verbatim>\<open>Close\<close> was called on it, and no record
  holds it any more.
\<close>

theorem relogin_leaks_previous_explorer:
  "\<not> no_connection_leak (W (run relogin server0))"
  unfolding no_connection_leak_def relogin_world
  apply simp
  apply (rule exI[of _ 0])
  apply (simp add: alice_as_cached_def)
  done

text \<open>
  C3, amended. On explicit logout (a request of a signed-in session whose path starts
  with \<^verbatim>\<open>/logout\<close>) \<^verbatim>\<open>Close\<close> is called on the explorer of the session first, then the
  caller's uid and the cache entry are deleted.
\<close>

theorem logout_closes_then_discards:
  assumes "cache w u = Some si" and "User si \<noteq> []" and "Password si \<noteq> []"
    and "FileExplorer si = Some a" and "HasPrefix (URL_Path req) ''/logout''"
  shows "\<exists>c w'. Contexter be req (Some u) w = (c, None, w') \<and>
           trace w' = trace w @ [CallClose a, CacheDelete u] \<and>
           cache w' = (cache w)(u := None) \<and>
           heap w' a = map_option (\<lambda>x. x\<lparr>ssh_conn := Released\<rparr>) (heap w a)"
  using assms
  by (auto simp: Contexter_def resolve_session_def Let_def SSH_Close_def cache_Delete_def
           split: option.splits)

theorem logout_closes_then_discards_witness:
  "\<exists>c w'. Contexter accept_all logout_req (Some ''alice'') alice_world = (c, None, w') \<and>
           trace w' = [CachePut ''alice'', CallClose 0, CacheDelete ''alice''] \<and>
           cache w' ''alice'' = None \<and>
           heap w' 0 = Some \<lparr>ssh_User = ''alice'', ssh_Password = ''pw'', ssh_conn = Released\<rparr>"
  using logout_closes_then_discards[of alice_world "''alice''" "alice_as_cached (Some 0)" 0
          logout_req accept_all]
  by (auto simp: alice_world_def alice_as_cached_def logout_req_def HasPrefix_def)


text \<open>
  The same for every such request: the mapped value is the cached record, whose
  explorer is absent; the cache is unchanged; the new explorer is connected.
\<close>

lemma lazy_reconnect_frame:
  assumes "cache w u = Some si" and "User si \<noteq> []" and "Password si \<noteq> []"
    and "FileExplorer si = None" and "be (User si) (Password si) = None"
    and "\<not> HasPrefix (URL_Path req) ''/logout''"
  shows "\<exists>c w'. Contexter be req (Some u) w = (c, Some u, w') \<and> mapped c = Some si \<and>
           cache w' = cache w \<and>
           heap w' (heap_next w) =
             Some \<lparr>ssh_User = User si, ssh_Password = Password si, ssh_conn = Connected\<rparr>"
  using assms
  by (auto simp: Contexter_def resolve_session_def Let_def BackendConnect_def
        NewSSHFileExplorer_def SSH_Init_def split: option.splits)

section \<open>Properties of the action dispatcher\<close>

text \<open>
  C7 at an action the chain does not name: for \<^verbatim>\<open>getContent\<close> the handler writes no
  response at all (and calls nothing), where the claim expects the fixed failure envelope.
\<close>

theorem unrecognized_action_writes_nothing:
  "apiHandler (Some recorder) (request0\<lparr>Action := ''getContent''\<rparr>) Context0 [] =
     (Context0, [])"
  by (simp add: apiHandler_def request0_def)

text \<open>The same for every action outside the eleven names of the chain.\<close>

lemma apiHandler_unrecognized:
  "Action req \<notin> set implemented \<union> set stubbed \<Longrightarrow> apiHandler s req c b = (c, b)"
  by (simp add: apiHandler_def implemented_def stubbed_def)

text \<open>The four stubs answer with the fixed envelope, status 200, and call nothing.\<close>

lemma apiHandler_stubbed:
  "Action req \<in> set stubbed \<Longrightarrow>
     apiHandler s req c b = (c_JSON 200 (GenericResp False ''Not Supported'') c, b)"
  by (auto simp: apiHandler_def stubbed_def DEFAULT_API_ERROR_RESPONSE_def)

text \<open>An implemented action, given an explorer, writes exactly one response.\<close>

lemma written_respond:
  "\<exists>r. written (respond err c) = written c @ [r]"
  by (cases err) (simp_all add: respond_def ApiSuccessResponse_def ApiErrorResponse_def c_JSON_def)

lemma apiHandler_implemented:
  assumes "Action req \<in> set implemented"
  shows "\<exists>r. written (fst (apiHandler (Some fe) req c b)) = written c @ [r]"
proof -
  consider (list) "Action req = ''list''" | (rename) "Action req = ''rename''"
    | (move) "Action req = ''move''" | (copy) "Action req = ''copy''"
    | (remove) "Action req = ''remove''" | (createFolder) "Action req = ''createFolder''"
    | (changePermissions) "Action req = ''changePermissions''"
    using assms by (auto simp: implemented_def)
  then show ?thesis
  proof cases
    case list
    then show ?thesis
      by (simp add: apiHandler_def ApiErrorResponse_def c_JSON_def
            split: prod.splits sum.splits)
  next
    case rename
    then show ?thesis
      by (simp add: apiHandler_def written_respond split: prod.splits)
  next
    case move
    then show ?thesis
      by (simp add: apiHandler_def written_respond split: prod.splits)
  next
    case copy
    then show ?thesis
      by (simp add: apiHandler_def written_respond split: prod.splits)
  next
    case remove
    then show ?thesis
      by (simp add: apiHandler_def written_respond split: prod.splits)
  next
    case createFolder
    then show ?thesis
      by (simp add: apiHandler_def written_respond split: prod.splits)
  next
    case changePermissions
    then show ?thesis
      by (simp add: apiHandler_def written_respond split: prod.splits)
  qed
qed

section \<open>Properties of path cleaning\<close>






















section \<open>Properties of the file system calls\<close>

lemma covers_refl: "covers r r"
  by (simp add: covers_def)

lemma covers_trans: "covers a b \<Longrightarrow> covers b c \<Longrightarrow> covers a c"
  unfolding covers_def by metis

lemma lookup_append:
  "lookup (a @ b) r = (case lookup a r of None \<Rightarrow> None | Some n \<Rightarrow> lookup b n)"
proof (induction a arbitrary: r)
  case Nil
  then show ?case by simp
next
  case (Cons c cs)
  then show ?case by (cases r) (auto split: option.splits)
qed

lemma covers_modify:
  "(\<And>n. lookup p r = Some n \<Longrightarrow> covers n (g n)) \<Longrightarrow> covers r (modify p g r)"
proof (induction p arbitrary: r)
  case Nil
  then show ?case by simp
next
  case (Cons c cs)
  show ?case
  proof (cases r)
    case (File m f d)
    then show ?thesis by (simp add: covers_refl)
  next
    case (Dir m f es)
    show ?thesis
    proof (cases "map_of es c")
      case None
      with Dir show ?thesis by (simp add: covers_refl)
    next
      case (Some ch)
      with Dir Cons.prems have "\<And>n. lookup cs ch = Some n \<Longrightarrow> covers n (g n)" by simp
      from Cons.IH[OF this] have ch: "covers ch (modify cs g ch)" .
      show ?thesis
        unfolding covers_def
      proof (intro allI impI)
        fix q n assume l: "lookup q r = Some n"
        show "\<exists>n'. lookup q (modify (c # cs) g r) = Some n' \<and> is_dir n' = is_dir n"
        proof (cases q)
          case Nil
          with l Dir Some show ?thesis by auto
        next
          case (Cons c' qs)
          show ?thesis
          proof (cases "c' = c")
            case True
            with l Cons Dir Some have "lookup qs ch = Some n" by simp
            with ch obtain n' where "lookup qs (modify cs g ch) = Some n'" "is_dir n' = is_dir n"
              unfolding covers_def by blast
            with True Cons Dir Some show ?thesis by (simp add: update_conv')
          next
            case False
            with l Cons Dir Some show ?thesis by (simp add: update_conv')
          qed
        qed
      qed
    qed
  qed
qed

lemma covers_set_data: "covers n (set_data d n)"
proof (cases n)
  case (File m f d0)
  show ?thesis
    unfolding covers_def
  proof (intro allI impI)
    fix q x assume "lookup q n = Some x"
    with File show "\<exists>n'. lookup q (set_data d n) = Some n' \<and> is_dir n' = is_dir x"
      by (cases q) auto
  qed
next
  case (Dir m f es)
  then show ?thesis by (simp add: covers_refl)
qed

lemma covers_set_child:
  assumes "lookup [c] n = None"
  shows "covers n (set_child c (Some v) n)"
proof (cases n)
  case (File m f d)
  then show ?thesis by (simp add: covers_refl)
next
  case (Dir m f es)
  with assms have none: "map_of es c = None" by (simp split: option.splits)
  show ?thesis
    unfolding covers_def
  proof (intro allI impI)
    fix q x assume l: "lookup q n = Some x"
    show "\<exists>n'. lookup q (set_child c (Some v) n) = Some n' \<and> is_dir n' = is_dir x"
    proof (cases q)
      case Nil
      with l Dir show ?thesis by auto
    next
      case (Cons c' qs)
      with l Dir none have "c' \<noteq> c" by (auto split: option.splits)
      with l Cons Dir show ?thesis by (simp add: update_conv')
    qed
  qed
qed

lemma covers_set_entry:
  assumes "lookup p r = None"
  shows "covers r (set_entry p (Some v) r)"
proof (cases "p = []")
  case True
  then show ?thesis by (simp add: set_entry_def covers_refl)
next
  case False
  then have p: "p = butlast p @ [last p]" by simp
  have "\<And>n. lookup (butlast p) r = Some n \<Longrightarrow> covers n (set_child (last p) (Some v) n)"
  proof -
    fix n assume "lookup (butlast p) r = Some n"
    with assms p have "lookup [last p] n = None"
      by (metis lookup_append option.simps(5))
    then show "covers n (set_child (last p) (Some v) n)" by (rule covers_set_child)
  qed
  from covers_modify[OF this] False show ?thesis by (simp add: set_entry_def)
qed

lemma namei_covers:
  "namei r cur es = Inr x \<Longrightarrow> covers r r' \<Longrightarrow> namei r' cur es = Inr x"
proof (induction es arbitrary: cur)
  case Nil
  then show ?case by simp
next
  case (Cons e es)
  from Cons.prems(1) obtain m f ents where d: "lookup cur r = Some (Dir m f ents)"
    by (auto split: option.splits node.splits)
  with Cons.prems(2) obtain n' where "lookup cur r' = Some n'" "is_dir n'"
    unfolding covers_def by fastforce
  then obtain m' f' ents' where d': "lookup cur r' = Some (Dir m' f' ents')"
    by (cases n') auto
  from Cons.prems(1) d d' Cons.IH[OF _ Cons.prems(2)] show ?case
    by (auto split: if_splits)
qed

lemma os_Create_covers:
  "os_Create name fs = (Inr h, fs1) \<Longrightarrow> covers (root fs) (root fs1) \<and> cwd fs1 = cwd fs"
  by (auto simp: os_Create_def covers_modify covers_set_data covers_set_entry
        split: sum.splits option.splits node.splits)

lemma CopyFile_no_panic: "fst (CopyFile source dest fs) \<noteq> Some (Panic msg)"
proof (cases "os_Open source fs")
  case (Inl e)
  then show ?thesis
    by (auto simp: CopyFile_def os_Open_def split: sum.splits option.splits)
next
  case (Inr sf)
  then have rs: "resolve fs source = Inr sf" and ls: "lookup sf (root fs) \<noteq> None"
    by (auto simp: os_Open_def split: sum.splits option.splits)
  obtain r fs1 where cr: "os_Create dest fs = (r, fs1)" by (cases "os_Create dest fs")
  show ?thesis
  proof (cases r)
    case (Inl e)
    with Inr cr show ?thesis
      by (auto simp: CopyFile_def os_Create_def split: sum.splits option.splits node.splits)
  next
    case df: (Inr df)
    with cr os_Create_covers have c1: "covers (root fs) (root fs1)" and w1: "cwd fs1 = cwd fs"
      by blast+
    show ?thesis
    proof (cases "read_all source sf fs1")
      case (Inl e)
      with Inr cr df show ?thesis
        by (auto simp: CopyFile_def read_all_def split: option.splits node.splits)
    next
      case rd: (Inr d)
      let ?fs2 = "write_all df d fs1"
      have c2: "covers (root fs) (root ?fs2)"
        using c1 covers_modify[of df "root fs1" "set_data d"] covers_set_data
        by (auto simp: write_all_def intro: covers_trans)
      have "source \<noteq> []" using rs by (auto simp: resolve_def split: if_splits)
      with rs namei_covers[OF _ c2] w1 have "resolve ?fs2 source = Inr sf"
        by (auto simp: resolve_def write_all_def)
      moreover from ls c2 have "lookup sf (root ?fs2) \<noteq> None"
        unfolding covers_def by fastforce
      ultimately have "\<exists>si. os_Stat source ?fs2 = Inr si"
        by (auto simp: os_Stat_def)
      with Inr cr df rd show ?thesis
        by (auto simp: CopyFile_def Let_def)
    qed
  qed
qed

section \<open>Properties of the local file explorer\<close>

lemmas fixture_defs = fe0_def fs0_def tree_def home_u_def NewLocalFileExplorer_def

lemmas path_defs = filepath_Join_def Clean_def resolve_def

lemmas os_defs = os_Stat_def os_Rename_def sys_rename_def parent_check_def set_entry_def
  os_Chmod_def os_RemoveAll_def endsWithDot_def lstat_node_def os_Mkdir_def
  syscallMode_def fileMode_def ModePerm_def ModeSetuid_def ModeSetgid_def ModeSticky_def
  ModeDir_def


text \<open>The state a loop leaves does not depend on what its items returned.\<close>

lemma for_range_state:
  "snd (for_range body xs err s) = fold (\<lambda>x s'. snd (body x s')) xs s"
  by (induction xs arbitrary: err s) (auto split: prod.splits)

text \<open>The loop of a bulk operation returns what its last item returned.\<close>

lemma for_range_snoc:
  "for_range body (xs @ [x]) err s = body x (snd (for_range body xs err s))"
  by (induction xs arbitrary: err s) (auto split: prod.splits)


text \<open>
  With the prefix \<^verbatim>\<open>/home/u\<close> and the working directory \<^verbatim>\<open>/\<close>, deleting the item
  \<^verbatim>\<open>present\<close> removes \<^verbatim>\<open>/present\<close> and leaves \<^verbatim>\<open>/home/u/present\<close>, the file every other
  operation means by that item.
\<close>

lemma delete_outside_RelativePath:
  "RelativePath fe0 = ''/home/u'' \<and>
   under fe0 ''present'' = ''/home/u/present'' \<and>
   Delete fe0 [''present''] fs0 =
     (None, fs0\<lparr>root := Dir 493 False [(''home'', Dir 493 False [(''u'', Dir 493 False home_u)])]\<rparr>) \<and>
   Delete unrooted [''/home/u/present''] fs0 =
     (None, tree [(''d'', Dir 493 False [(''b'', File 420 True ''x''), (''a'', File 420 False ''y'')])])"
  by (simp add: Delete_def under_def fixture_defs path_defs os_defs)

text \<open>\<^verbatim>\<open>CopyFile\<close> never reaches the call on the nil \<^verbatim>\<open>FileInfo\<close>.\<close>

lemma Copy_no_panic: "fst (Copy fe [target] newPath name fs) \<noteq> Some (Panic msg)"
  using CopyFile_no_panic[of "filepath_Join [RelativePath fe, target]"
          "filepath_Join [RelativePath fe, newPath, name]" fs msg]
  by (auto simp: Copy_def split: prod.splits)

text \<open>
  C4, as stated, fails. On \<^verbatim>\<open>Move\<close>: the first item does not exist, so its rename
  fails; the loop goes on and moves the second item; the call returns \<^verbatim>\<open>nil\<close>, the
  result of the last rename. On the example of the claim: \<^verbatim>\<open>os.RemoveAll\<close> of a path
  that does not exist is no error, so deleting \<^verbatim>\<open>missing\<close> and \<^verbatim>\<open>present\<close> removes
  \<^verbatim>\<open>present\<close> and returns \<^verbatim>\<open>nil\<close>.
\<close>

theorem bulk_returns_nil_after_failure:
  "Rename fe0 ''missing'' ''dst'' fs0 =
     (Some (LinkError ''rename'' ''/home/u/missing'' ''/home/u/dst'' ENOENT), fs0) \<and>
   Move fe0 [''missing'', ''present''] ''dst'' fs0 =
     (None, tree [(''d'', Dir 493 False [(''b'', File 420 True ''x''), (''a'', File 420 False ''y'')]),
                  (''dst'', File 420 False ''hello'')]) \<and>
   os_RemoveAll ''missing'' fs0 = (None, fs0) \<and>
   fst (Delete fe0 [''missing'', ''present''] fs0) = None"
  by (simp add: Move_def Rename_def Delete_def fixture_defs path_defs os_defs)

text \<open>
  C4, amended. The bulk operations go on across the remaining items after an item
  fails: whatever the items return, the file system after the call is the one obtained
  by attempting every item in order. Deleting a path that does not exist is not a
  failure: deleting \<^verbatim>\<open>missing\<close> and \<^verbatim>\<open>present\<close> removes \<^verbatim>\<open>present\<close> and succeeds.
\<close>

theorem bulk_continues_across_items:
  "snd (Move fe items newPath fs) =
     fold (\<lambda>target s. snd (Rename fe target newPath s)) items fs \<and>
   snd (Copy fe items newPath name fs) =
     fold (\<lambda>target s. snd (CopyFile (filepath_Join [RelativePath fe, target])
                                      (filepath_Join [RelativePath fe, newPath, name]) s))
          items fs \<and>
   snd (Delete fe items fs) = fold (\<lambda>target s. snd (os_RemoveAll target s)) items fs \<and>
   Delete fe0 [''missing'', ''present''] fs0 =
     (None, fs0\<lparr>root := Dir 493 False [(''home'', Dir 493 False [(''u'', Dir 493 False home_u)])]\<rparr>)"
proof (intro conjI)
  show "snd (Move fe items newPath fs) =
     fold (\<lambda>target s. snd (Rename fe target newPath s)) items fs"
    by (simp add: Move_def for_range_state)
  show "snd (Copy fe items newPath name fs) =
     fold (\<lambda>target s. snd (CopyFile (filepath_Join [RelativePath fe, target])
                                      (filepath_Join [RelativePath fe, newPath, name]) s))
          items fs"
    by (simp add: Copy_def for_range_state)
  show "snd (Delete fe items fs) = fold (\<lambda>target s. snd (os_RemoveAll target s)) items fs"
    by (simp add: Delete_def for_range_state)
  show "Delete fe0 [''missing'', ''present''] fs0 =
     (None, fs0\<lparr>root := Dir 493 False [(''home'', Dir 493 False [(''u'', Dir 493 False home_u)])]\<rparr>)"
    by (simp add: Delete_def fixture_defs path_defs os_defs)
qed

text \<open>
  What a call returns is the result of its last item, on the file system the items
  before it left.
\<close>

lemma bulk_result_is_last:
  "Move fe (items @ [x]) newPath fs = Rename fe x newPath (snd (Move fe items newPath fs))"
  "Copy fe (items @ [x]) newPath name fs =
     CopyFile (filepath_Join [RelativePath fe, x]) (filepath_Join [RelativePath fe, newPath, name])
       (snd (Copy fe items newPath name fs))"
  "Delete fe (items @ [x]) fs = os_RemoveAll x (snd (Delete fe items fs))"
  by (simp_all add: Move_def Copy_def Delete_def for_range_snoc)

text \<open>An item of \<^verbatim>\<open>Delete\<close> that does fail (a path ending in a dot element) is passed over.\<close>

lemma delete_failed_present:
  "os_RemoveAll ''home/.'' fs0 = (Some (PathError ''RemoveAll'' ''home/.'' EINVAL), fs0) \<and>
   Delete fe0 [''home/.'', ''present''] fs0 =
     (None, fs0\<lparr>root := Dir 493 False [(''home'', Dir 493 False [(''u'', Dir 493 False home_u)])]\<rparr>)"
  by (simp add: Delete_def fixture_defs path_defs os_defs)

text \<open>
  C5 at the code \<^verbatim>\<open>755\<close>: \<^verbatim>\<open>Atoi\<close> reads it in base ten, and the mode applied is that
  of the number 755, whose permission bits are 0363; the file ends with \<^verbatim>\<open>-wxrw--wx\<close>,
  where the claim expects \<^verbatim>\<open>rwxr-xr-x\<close> (0755, the number 493).
\<close>

theorem chmod_reads_code_in_base_ten:
  "Atoi ''755'' = Inr 755 \<and>
   Chmod fe0 [''present''] ''755'' False fs0 =
     (None, tree [(''present'', File 243 False ''hello''),
                  (''d'', Dir 493 False [(''b'', File 420 True ''x''), (''a'', File 420 False ''y'')])]) \<and>
   FileMode_String (fileMode (File 243 False ''hello'')) = ''--wxrw--wx'' \<and>
   FileMode_String (fileMode (File 493 False ''hello'')) = ''-rwxr-xr-x''"
proof (intro conjI)
  show "Atoi ''755'' = Inr 755"
    by (simp add: Atoi_def)
  show "Chmod fe0 [''present''] ''755'' False fs0 =
     (None, tree [(''present'', File 243 False ''hello''),
                  (''d'', Dir 493 False [(''b'', File 420 True ''x''), (''a'', File 420 False ''y'')])])"
    by (simp add: Chmod_def Atoi_def fixture_defs path_defs os_defs)
  have "fileMode (File 243 False ''hello'') = 243" "fileMode (File 493 False ''hello'') = 493"
    by (simp_all add: os_defs)
  moreover have "FileMode_String 243 = ''--wxrw--wx''" "FileMode_String 493 = ''-rwxr-xr-x''"
    by code_simp+
  ultimately show "FileMode_String (fileMode (File 243 False ''hello'')) = ''--wxrw--wx''"
    and "FileMode_String (fileMode (File 493 False ''hello'')) = ''-rwxr-xr-x''"
    by simp_all
qed

text \<open>The second half of C5 holds: a code that does not parse changes nothing.\<close>

lemma chmod_fails_closed:
  "Atoi code = Inl e \<Longrightarrow>
     Chmod fe path code recursive fs = (Some (NumError ''Atoi'' code e), fs)"
  by (simp add: Chmod_def)

lemma chmod_fails_closed_example:
  "Chmod fe0 [''present''] ''rwx'' True fs0 = (Some (NumError ''Atoi'' ''rwx'' ErrSyntax), fs0)"
  by (simp add: Chmod_def Atoi_def)

text \<open>
  C6: \<^verbatim>\<open>Move\<close> renames each item to the destination path itself. Into an existing
  directory nothing moves (\<^verbatim>\<open>os.Rename\<close> refuses a directory as the new path); with no
  entry at the destination the call succeeds and the item is the destination, a file,
  with nothing inside it.
\<close>

theorem move_renames_onto_destination:
  "Move fe0 [''present''] ''d'' fs0 =
     (Some (LinkError ''rename'' ''/home/u/present'' ''/home/u/d'' EEXIST), fs0) \<and>
   Move fe0 [''present''] ''dst'' fs0 =
     (None, tree [(''d'', Dir 493 False [(''b'', File 420 True ''x''), (''a'', File 420 False ''y'')]),
                  (''dst'', File 420 False ''hello'')]) \<and>
   lstat_node ''/home/u/dst/present'' (snd (Move fe0 [''present''] ''dst'' fs0)) =
     Inl (PathError ''lstat'' ''/home/u/dst/present'' ENOTDIR)"
  by (simp add: Move_def Rename_def fixture_defs path_defs os_defs)

text \<open>The new path of every rename is the destination, whatever the item.\<close>

lemma move_one_item:
  "Move fe [item] newPath fs =
     os_Rename (under fe item) (under fe newPath) fs"
  by (simp add: Move_def Rename_def under_def split: prod.splits)

text \<open>
  C8: in \<^verbatim>\<open>/home/u/d\<close> the file \<^verbatim>\<open>b\<close> belongs to another user. The walk changes the
  mode of \<^verbatim>\<open>d\<close> and of \<^verbatim>\<open>a\<close>, fails on \<^verbatim>\<open>b\<close> and returns that error; \<^verbatim>\<open>Chmod\<close> drops
  the result of the walk and returns \<^verbatim>\<open>nil\<close>.
\<close>

theorem recursive_chmod_drops_error:
  "Walk ''/home/u/d'' (chmod_walkFn 755) fs0 =
     (Some (PathError ''chmod'' ''/home/u/d/b'' EPERM),
      tree [(''present'', File 420 False ''hello''),
            (''d'', Dir 243 False [(''b'', File 420 True ''x''), (''a'', File 243 False ''y'')])]) \<and>
   Chmod fe0 [''d''] ''755'' True fs0 =
     (None,
      tree [(''present'', File 420 False ''hello''),
            (''d'', Dir 243 False [(''b'', File 420 True ''x''), (''a'', File 243 False ''y'')])])"
proof -
  have w: "Walk ''/home/u/d'' (chmod_walkFn 755) fs0 =
     (Some (PathError ''chmod'' ''/home/u/d/b'' EPERM),
      tree [(''present'', File 420 False ''hello''),
            (''d'', Dir 243 False [(''b'', File 420 True ''x''), (''a'', File 243 False ''y'')])])"
    by (simp add: Walk_def chmod_walkFn_def fixture_defs path_defs os_defs)
  have "Chmod fe0 [''d''] ''755'' True fs0 =
     (None, snd (Walk ''/home/u/d'' (chmod_walkFn 755) fs0))"
    by (simp add: Chmod_def Atoi_def fe0_def NewLocalFileExplorer_def filepath_Join_def Clean_def)
  with w show ?thesis by simp
qed

text \<open>No recursive call with a code that parses returns an error.\<close>

lemma recursive_chmod_returns_nil:
  "Atoi code = Inr n \<Longrightarrow> fst (Chmod fe path code True fs) = None"
  by (simp add: Chmod_def)

text \<open>The branch that is not recursive does return the error of the same file.\<close>

lemma plain_chmod_returns_error:
  "Chmod fe0 [''d/b''] ''755'' False fs0 = (Some (PathError ''chmod'' ''/home/u/d/b'' EPERM), fs0)"
  by (simp add: Chmod_def Atoi_def fixture_defs path_defs os_defs)

text \<open>
  C9. For a regular file at the joined path, \<^verbatim>\<open>GetContent\<close> returns the error
  "file too big" when the file is longer than 1048576 bytes and returns a text otherwise.
\<close>

theorem getContent_size_guard:
  assumes "lstat_node (filepath_Join [RelativePath fe, item]) fs = Inr (File m f d)"
  shows "if length d > 1024 * 1024
         then GetContent fe item fs = Inl (errorString ''file too big, not support getContent'')
         else (\<exists>s. GetContent fe item fs = Inr s)"
  using assms
  by (auto simp: GetContent_def lstat_node_def os_Stat_def os_Open_def Let_def
           split: sum.splits option.splits)

lemma length_filled: "length (filled n) = n"
  by (simp add: filled_def)

lemma lstat_exact:
  "lstat_node (filepath_Join [RelativePath fe0, ''exact'']) sized_files =
     Inr (File 420 False (filled (1024 * 1024)))"
  by (simp add: lstat_node_def sized_files_def fe0_def NewLocalFileExplorer_def tree_def path_defs)

lemma lstat_over:
  "lstat_node (filepath_Join [RelativePath fe0, ''over'']) sized_files =
     Inr (File 420 False (filled (1024 * 1024 + 1)))"
  by (simp add: lstat_node_def sized_files_def fe0_def NewLocalFileExplorer_def tree_def path_defs)

theorem getContent_size_guard_witness:
  "(\<exists>s. GetContent fe0 ''exact'' sized_files = Inr s) \<and>
   GetContent fe0 ''over'' sized_files =
     Inl (errorString ''file too big, not support getContent'')"
  using getContent_size_guard[OF lstat_exact] getContent_size_guard[OF lstat_over]
  by (simp add: length_filled)

text \<open>The error is that of the size guard only when the size reported exceeds 1 MiB.\<close>

lemma getContent_too_big_iff:
  "GetContent fe item fs = Inl (errorString ''file too big, not support getContent'') \<longleftrightarrow>
     (\<exists>fi. os_Stat (filepath_Join [RelativePath fe, item]) fs = Inr fi \<and>
           fi_Size fi > 1024 * 1024)"
  by (auto simp: GetContent_def os_Stat_def os_Open_def Let_def split: sum.splits option.splits)

end
